theory Spec2Isabelle
  imports Complex_Main "HOL-Library.Word" "HOL-Library.Sublist"
begin

section \<open>JavaScript strings\<close>

text \<open>
  A JavaScript string is a sequence of UTF-16 code units. \<open>String.prototype.trim\<close> and the
  regular expression class \<open>\s\<close> (without the unicode flag) use the same set of code units:
  ECMAScript's WhiteSpace and LineTerminator productions, all of which are single code units.
\<close>

type_synonym jschar = "16 word"
type_synonym jsstring = "jschar list"

definition jsstr :: "string \<Rightarrow> jsstring" where
  "jsstr s = map of_char s"

definition LF :: jschar where
  "LF = 0xA"

definition is_space :: "jschar \<Rightarrow> bool" where
  "is_space c \<longleftrightarrow>
     c = 0x9 \<or> c = 0xA \<or> c = 0xB \<or> c = 0xC \<or> c = 0xD \<or> c = 0x20 \<or> c = 0xA0 \<or>
     c = 0x1680 \<or> (0x2000 \<le> c \<and> c \<le> 0x200A) \<or> c = 0x2028 \<or> c = 0x2029 \<or>
     c = 0x202F \<or> c = 0x205F \<or> c = 0x3000 \<or> c = 0xFEFF"

text \<open>\<open>s.trim()\<close>: strip leading and trailing white space.\<close>

definition js_trim :: "jsstring \<Rightarrow> jsstring" where
  "js_trim s = rev (dropWhile is_space (rev (dropWhile is_space s)))"

text \<open>
  \<open>s.split(/\s+/)\<close>, after the algorithm of \<open>RegExp.prototype[@@split]\<close>: the empty string
  gives the one-element array holding it (the pattern does not match the empty string);
  otherwise the string is scanned from the left, every maximal white-space run closes the
  current piece (also an empty one), and the rest after the last run is the last piece.
  \<open>piece\<close> holds the current piece reversed.
\<close>

function split_from :: "jsstring \<Rightarrow> jsstring \<Rightarrow> jsstring list" where
  "split_from piece [] = [rev piece]"
| "split_from piece (c # cs) =
     (if is_space c then rev piece # split_from [] (dropWhile is_space cs)
      else split_from (c # piece) cs)"
  by pat_completeness auto
termination
  by (relation "measure (\<lambda>(piece, s). length s)")
     (auto simp: less_Suc_eq_le length_dropWhile_le)

definition js_split_ws :: "jsstring \<Rightarrow> jsstring list" where
  "js_split_ws s = (if s = [] then [s] else split_from [] s)"

text \<open>\<open>n.toString()\<close> for a non-negative integer such as an array length: decimal digits.\<close>

definition digit_char :: "nat \<Rightarrow> jschar" where
  "digit_char d = of_nat (48 + d)"

fun nat_toString :: "nat \<Rightarrow> jsstring" where
  "nat_toString n =
     (if n < 10 then [digit_char n] else nat_toString (n div 10) @ [digit_char (n mod 10)])"

declare nat_toString.simps [simp del]

text \<open>\<open>s.replace(/\n/g, '<br>')\<close>.\<close>

definition replace_newlines :: "jsstring \<Rightarrow> jsstring" where
  "replace_newlines s = concat (map (\<lambda>c. if c = LF then jsstr ''<br>'' else [c]) s)"

text \<open>\<open>x || null\<close> on an optional string: the empty string is falsy as well.\<close>

definition or_null :: "jsstring option \<Rightarrow> jsstring option" where
  "or_null x = (case x of None \<Rightarrow> None | Some s \<Rightarrow> if s = [] then None else Some s)"


section \<open>The JavaScript \<open>Map\<close>\<close>

text \<open>
  A \<open>Map\<close> keeps its entries in insertion order; \<open>set\<close> on a key that is present replaces
  the value where the entry stands, and appends the entry otherwise.
\<close>

type_synonym ('k, 'v) js_map = "('k \<times> 'v) list"

fun map_set :: "'k \<Rightarrow> 'v \<Rightarrow> ('k, 'v) js_map \<Rightarrow> ('k, 'v) js_map" where
  "map_set k v [] = [(k, v)]"
| "map_set k v ((k', v') # kvs) =
     (if k' = k then (k, v) # kvs else (k', v') # map_set k v kvs)"

definition map_get :: "('k, 'v) js_map \<Rightarrow> 'k \<Rightarrow> 'v option" where
  "map_get m k = map_of m k"

definition map_values :: "('k, 'v) js_map \<Rightarrow> 'v list" where
  "map_values m = map snd m"


section \<open>Entities (shared/schema.ts)\<close>

type_synonym date = int

record Transcript =
  t_id :: jsstring
  t_content :: jsstring
  t_fileName :: "jsstring option"
  t_createdAt :: date

record Summary =
  s_id :: jsstring
  s_transcriptId :: jsstring
  s_content :: jsstring
  s_customInstructions :: "jsstring option"
  s_wordCount :: "jsstring option"
  s_createdAt :: date

record EmailShare =
  e_id :: jsstring
  e_summaryId :: jsstring
  e_recipients :: jsstring
  e_subject :: jsstring
  e_message :: "jsstring option"
  e_sentAt :: date

record InsertTranscript =
  it_content :: jsstring
  it_fileName :: "jsstring option"

record InsertSummary =
  is_transcriptId :: jsstring
  is_content :: jsstring
  is_customInstructions :: "jsstring option"
  is_wordCount :: "jsstring option"

record InsertEmailShare =
  ie_summaryId :: jsstring
  ie_recipients :: jsstring
  ie_subject :: jsstring
  ie_message :: "jsstring option"


section \<open>MemStorage\<close>

text \<open>
  The three maps of the class. Every operation takes the storage and returns it updated.
  The results of \<open>randomUUID()\<close> and \<open>new Date()\<close> are inputs of the operation.
\<close>

record MemStorage =
  transcripts :: "(jsstring, Transcript) js_map"
  summaries :: "(jsstring, Summary) js_map"
  emailShares :: "(jsstring, EmailShare) js_map"

definition new_MemStorage :: MemStorage where
  "new_MemStorage = \<lparr>transcripts = [], summaries = [], emailShares = []\<rparr>"

definition createTranscript ::
  "jsstring \<Rightarrow> date \<Rightarrow> InsertTranscript \<Rightarrow> MemStorage \<Rightarrow> Transcript \<times> MemStorage" where
  "createTranscript uuid now insertTranscript st =
     (let transcript = \<lparr>t_id = uuid,
                         t_content = it_content insertTranscript,
                         t_fileName = or_null (it_fileName insertTranscript),
                         t_createdAt = now\<rparr>
      in (transcript, st\<lparr>transcripts := map_set uuid transcript (transcripts st)\<rparr>))"

definition getTranscript :: "jsstring \<Rightarrow> MemStorage \<Rightarrow> Transcript option" where
  "getTranscript ident st = map_get (transcripts st) ident"

definition createSummary ::
  "jsstring \<Rightarrow> date \<Rightarrow> InsertSummary \<Rightarrow> MemStorage \<Rightarrow> Summary \<times> MemStorage" where
  "createSummary uuid now insertSummary st =
     (let summary = \<lparr>s_id = uuid,
                      s_transcriptId = is_transcriptId insertSummary,
                      s_content = is_content insertSummary,
                      s_customInstructions = or_null (is_customInstructions insertSummary),
                      s_wordCount = or_null (is_wordCount insertSummary),
                      s_createdAt = now\<rparr>
      in (summary, st\<lparr>summaries := map_set uuid summary (summaries st)\<rparr>))"

definition getSummary :: "jsstring \<Rightarrow> MemStorage \<Rightarrow> Summary option" where
  "getSummary ident st = map_get (summaries st) ident"

definition updateSummary ::
  "jsstring \<Rightarrow> jsstring \<Rightarrow> MemStorage \<Rightarrow> Summary option \<times> MemStorage" where
  "updateSummary ident content st =
     (case map_get (summaries st) ident of
        None \<Rightarrow> (None, st)
      | Some summary \<Rightarrow>
          (let updatedSummary =
                 summary\<lparr>s_content := content,
                         s_wordCount :=
                           Some (nat_toString (length (js_split_ws (js_trim content))))\<rparr>
           in (Some updatedSummary,
               st\<lparr>summaries := map_set ident updatedSummary (summaries st)\<rparr>)))"

definition getSummariesByTranscriptId :: "jsstring \<Rightarrow> MemStorage \<Rightarrow> Summary list" where
  "getSummariesByTranscriptId transcriptId st =
     filter (\<lambda>summary. s_transcriptId summary = transcriptId) (map_values (summaries st))"

definition createEmailShare ::
  "jsstring \<Rightarrow> date \<Rightarrow> InsertEmailShare \<Rightarrow> MemStorage \<Rightarrow> EmailShare \<times> MemStorage" where
  "createEmailShare uuid now insertEmailShare st =
     (let emailShare = \<lparr>e_id = uuid,
                         e_summaryId = ie_summaryId insertEmailShare,
                         e_recipients = ie_recipients insertEmailShare,
                         e_subject = ie_subject insertEmailShare,
                         e_message = or_null (ie_message insertEmailShare),
                         e_sentAt = now\<rparr>
      in (emailShare, st\<lparr>emailShares := map_set uuid emailShare (emailShares st)\<rparr>))"

definition getEmailSharesBySummaryId :: "jsstring \<Rightarrow> MemStorage \<Rightarrow> EmailShare list" where
  "getEmailSharesBySummaryId summaryId st =
     filter (\<lambda>emailShare. e_summaryId emailShare = summaryId) (map_values (emailShares st))"


section \<open>Request bodies\<close>

text \<open>
  A request body as the JSON body parser leaves it: a JSON value, or \<open>undefined\<close> when there
  is none. Numbers are never inspected by the handlers beyond their truthiness.
\<close>

datatype json =
    JUndefined
  | JNull
  | JBool bool
  | JNum real
  | JStr jsstring
  | JArr "json list"
  | JObj "(jsstring \<times> json) list"

text \<open>ToBoolean, as used by \<open>!x\<close> and \<open>x || y\<close>.\<close>

fun truthy :: "json \<Rightarrow> bool" where
  "truthy JUndefined = False"
| "truthy JNull = False"
| "truthy (JBool b) = b"
| "truthy (JNum r) = (r \<noteq> 0)"
| "truthy (JStr s) = (s \<noteq> [])"
| "truthy (JArr xs) = True"
| "truthy (JObj props) = True"

fun js_typeof :: "json \<Rightarrow> string" where
  "js_typeof JUndefined = ''undefined''"
| "js_typeof JNull = ''object''"
| "js_typeof (JBool b) = ''boolean''"
| "js_typeof (JNum r) = ''number''"
| "js_typeof (JStr s) = ''string''"
| "js_typeof (JArr xs) = ''object''"
| "js_typeof (JObj props) = ''object''"

text \<open>
  Reading a property (\<open>const { content } = req.body\<close>): \<open>undefined\<close> and \<open>null\<close> have no
  properties and the read throws a TypeError (\<open>None\<close>); an object gives the value stored under
  the key, or \<open>undefined\<close>; none of the keys read here exists on a boolean, a number, a string
  or an array.
\<close>

fun get_property :: "json \<Rightarrow> jsstring \<Rightarrow> json option" where
  "get_property JUndefined k = None"
| "get_property JNull k = None"
| "get_property (JObj props) k =
     Some (case map_of props k of None \<Rightarrow> JUndefined | Some v \<Rightarrow> v)"
| "get_property v k = Some JUndefined"


section \<open>Validation (the Zod schemas of shared/schema.ts)\<close>

text \<open>
  An issue carries its code, the path of the offending value, and the message when the schema
  sets one (\<open>None\<close> is the library's own message). The issues of an object are those of its
  keys, in the order of the schema; unknown keys are dropped.
\<close>

datatype issue_code = invalid_type | too_small | invalid_string

datatype path_elem = Key jsstring | Index nat

record ZodIssue =
  code :: issue_code
  path :: "path_elem list"
  message :: "jsstring option"

text \<open>\<open>z.string().min(1, msg)\<close> under key \<open>k\<close>.\<close>

definition parse_string_min1 :: "jsstring \<Rightarrow> jsstring \<Rightarrow> json \<Rightarrow> ZodIssue list + jsstring" where
  "parse_string_min1 k msg v =
     (case v of
        JStr s \<Rightarrow>
          if length s < 1 then Inl [\<lparr>code = too_small, path = [Key k], message = Some msg\<rparr>]
          else Inr s
      | _ \<Rightarrow> Inl [\<lparr>code = invalid_type, path = [Key k], message = None\<rparr>])"

text \<open>\<open>z.string().optional()\<close> under key \<open>k\<close>.\<close>

definition parse_string_optional :: "jsstring \<Rightarrow> json \<Rightarrow> ZodIssue list + jsstring option" where
  "parse_string_optional k v =
     (case v of
        JUndefined \<Rightarrow> Inr None
      | JStr s \<Rightarrow> Inr (Some s)
      | _ \<Rightarrow> Inl [\<lparr>code = invalid_type, path = [Key k], message = None\<rparr>])"

text \<open>
  \<open>z.array(z.string().email(msg1)).min(1, msg2)\<close> under key \<open>k\<close>. The syntax check of an
  e-mail address is the library's and is a parameter here.
\<close>

definition parse_email_element ::
  "(jsstring \<Rightarrow> bool) \<Rightarrow> jsstring \<Rightarrow> nat \<times> json \<Rightarrow> ZodIssue list" where
  "parse_email_element is_email k iv =
     (case snd iv of
        JStr s \<Rightarrow>
          if is_email s then []
          else [\<lparr>code = invalid_string, path = [Key k, Index (fst iv)],
                 message = Some (jsstr ''Invalid email address'')\<rparr>]
      | _ \<Rightarrow> [\<lparr>code = invalid_type, path = [Key k, Index (fst iv)], message = None\<rparr>])"

fun the_strings :: "json list \<Rightarrow> jsstring list" where
  "the_strings [] = []"
| "the_strings (JStr s # vs) = s # the_strings vs"
| "the_strings (v # vs) = the_strings vs"

definition parse_email_array ::
  "(jsstring \<Rightarrow> bool) \<Rightarrow> jsstring \<Rightarrow> json \<Rightarrow> ZodIssue list + jsstring list" where
  "parse_email_array is_email k v =
     (case v of
        JArr xs \<Rightarrow>
          (let issues =
                 (if length xs < 1
                  then [\<lparr>code = too_small, path = [Key k],
                         message = Some (jsstr ''At least one recipient is required'')\<rparr>]
                  else []) @
                 concat (map (parse_email_element is_email k) (enumerate 0 xs))
           in if issues = [] then Inr (the_strings xs) else Inl issues)
      | _ \<Rightarrow> Inl [\<lparr>code = invalid_type, path = [Key k], message = None\<rparr>])"

definition issues_of :: "ZodIssue list + 'a \<Rightarrow> ZodIssue list" where
  "issues_of r = (case r of Inl issues \<Rightarrow> issues | Inr x \<Rightarrow> [])"

definition object_property :: "(jsstring \<times> json) list \<Rightarrow> jsstring \<Rightarrow> json" where
  "object_property props k = (case map_of props k of None \<Rightarrow> JUndefined | Some v \<Rightarrow> v)"

record GenerateSummaryRequest =
  transcriptContent :: jsstring
  customInstructions :: "jsstring option"

record SendEmailRequest =
  summaryId :: jsstring
  recipients :: "jsstring list"
  subject :: jsstring
  email_message :: "jsstring option"

text \<open>\<open>generateSummarySchema.parse\<close>: \<open>Inl\<close> is the thrown ZodError.\<close>

definition generateSummarySchema_parse :: "json \<Rightarrow> ZodIssue list + GenerateSummaryRequest" where
  "generateSummarySchema_parse body =
     (case body of
        JObj props \<Rightarrow>
          (let r1 = parse_string_min1 (jsstr ''transcriptContent'')
                      (jsstr ''Transcript content is required'')
                      (object_property props (jsstr ''transcriptContent''));
               r2 = parse_string_optional (jsstr ''customInstructions'')
                      (object_property props (jsstr ''customInstructions''))
           in case (r1, r2) of
                (Inr tc, Inr ci) \<Rightarrow> Inr \<lparr>transcriptContent = tc, customInstructions = ci\<rparr>
              | _ \<Rightarrow> Inl (issues_of r1 @ issues_of r2))
      | _ \<Rightarrow> Inl [\<lparr>code = invalid_type, path = [], message = None\<rparr>])"

text \<open>\<open>sendEmailSchema.parse\<close>: \<open>Inl\<close> is the thrown ZodError.\<close>

definition sendEmailSchema_parse ::
  "(jsstring \<Rightarrow> bool) \<Rightarrow> json \<Rightarrow> ZodIssue list + SendEmailRequest" where
  "sendEmailSchema_parse is_email body =
     (case body of
        JObj props \<Rightarrow>
          (let r1 = parse_string_min1 (jsstr ''summaryId'') (jsstr ''Summary ID is required'')
                      (object_property props (jsstr ''summaryId''));
               r2 = parse_email_array is_email (jsstr ''recipients'')
                      (object_property props (jsstr ''recipients''));
               r3 = parse_string_min1 (jsstr ''subject'') (jsstr ''Subject is required'')
                      (object_property props (jsstr ''subject''));
               r4 = parse_string_optional (jsstr ''message'')
                      (object_property props (jsstr ''message''))
           in case (r1, r2, r3, r4) of
                (Inr sid, Inr rs, Inr subj, Inr msg) \<Rightarrow>
                  Inr \<lparr>summaryId = sid, recipients = rs, subject = subj, email_message = msg\<rparr>
              | _ \<Rightarrow> Inl (issues_of r1 @ issues_of r2 @ issues_of r3 @ issues_of r4))
      | _ \<Rightarrow> Inl [\<lparr>code = invalid_type, path = [], message = None\<rparr>])"


section \<open>Collaborators (server/routes.ts)\<close>

text \<open>
  The completion service receives one chat request and answers with a completion or fails;
  the mail transport receives one message per call and resolves or rejects. Their failures
  are errors of their own, never a ZodError. The handlers below return, next to the response
  and the storage, the requests they passed to the collaborator, in the order of the calls.
\<close>

record ChatMessage =
  role :: jsstring
  chat_content :: jsstring

record ChatRequest =
  messages :: "ChatMessage list"
  model :: jsstring
  temperature :: real
  max_tokens :: nat

record CompletionMessage =
  completion_content :: "jsstring option"

record Choice =
  choice_message :: "CompletionMessage option"

record ChatCompletion =
  choices :: "Choice list"

record MailOptions =
  mail_from :: jsstring
  mail_to :: jsstring
  mail_subject :: jsstring
  mail_text :: jsstring
  mail_html :: jsstring

text \<open>
  What the e-mail handler takes from outside the repository: the e-mail syntax check of the
  validation library, \<open>JSON.stringify\<close> on an array of strings, two environment variables, and
  the transport's \<open>sendMail\<close>, whose outcome may depend on the position of the call as well as
  on the message.
\<close>

record MailWorld =
  is_email :: "jsstring \<Rightarrow> bool"
  JSON_stringify :: "jsstring list \<Rightarrow> jsstring"
  SMTP_USER :: "jsstring option"
  EMAIL_USER :: "jsstring option"
  sendMail :: "nat \<Rightarrow> MailOptions \<Rightarrow> jsstring + unit"

datatype payload =
    Message jsstring
  | InvalidRequest jsstring "ZodIssue list"
  | TranscriptJson Transcript
  | SummaryJson Summary
  | EmailSent jsstring EmailShare

record Response =
  status :: nat
  payload :: payload

text \<open>\<open>x || d\<close> on an optional string with a string default.\<close>

definition or_default :: "jsstring option \<Rightarrow> jsstring \<Rightarrow> jsstring" where
  "or_default x d = (case x of None \<Rightarrow> d | Some s \<Rightarrow> if s = [] then d else s)"


section \<open>Handlers (server/routes.ts)\<close>

text \<open>POST /api/transcripts\<close>

definition post_transcripts ::
  "jsstring \<Rightarrow> date \<Rightarrow> json \<Rightarrow> MemStorage \<Rightarrow> Response \<times> MemStorage" where
  "post_transcripts uuid now body st =
     (case get_property body (jsstr ''content'') of
        None \<Rightarrow>
          (\<lparr>status = 500, payload = Message (jsstr ''Failed to create transcript'')\<rparr>, st)
      | Some content \<Rightarrow>
          if \<not> truthy content \<or> js_typeof content \<noteq> ''string''
          then (\<lparr>status = 400, payload = Message (jsstr ''Content is required'')\<rparr>, st)
          else (case content of
                  JStr s \<Rightarrow>
                    (let (transcript, st') =
                           createTranscript uuid now
                             \<lparr>it_content = js_trim s, it_fileName = None\<rparr> st
                     in (\<lparr>status = 200, payload = TranscriptJson transcript\<rparr>, st'))
                | _ \<Rightarrow>
                    (\<lparr>status = 500,
                      payload = Message (jsstr ''Failed to create transcript'')\<rparr>, st)))"

text \<open>POST /api/summaries/generate\<close>

definition defaultInstructions :: jsstring where
  "defaultInstructions =
     jsstr ''Summarize the following meeting transcript in a clear, organized format with key discussion points and action items.''"

definition summaryContent_of :: "ChatCompletion \<Rightarrow> jsstring" where
  "summaryContent_of completion =
     (case choices completion of
        [] \<Rightarrow> []
      | choice # _ \<Rightarrow>
          (case choice_message choice of
             None \<Rightarrow> []
           | Some m \<Rightarrow> or_default (completion_content m) []))"

definition post_summaries_generate ::
  "(ChatRequest \<Rightarrow> jsstring + ChatCompletion) \<Rightarrow> jsstring \<Rightarrow> date \<Rightarrow> jsstring \<Rightarrow> date \<Rightarrow>
   json \<Rightarrow> MemStorage \<Rightarrow> Response \<times> MemStorage \<times> ChatRequest list" where
  "post_summaries_generate groq uuid1 now1 uuid2 now2 body st =
     (case generateSummarySchema_parse body of
        Inl issues \<Rightarrow>
          (\<lparr>status = 400, payload = InvalidRequest (jsstr ''Invalid request data'') issues\<rparr>,
           st, [])
      | Inr validatedData \<Rightarrow>
          (let (transcript, st1) =
                 createTranscript uuid1 now1
                   \<lparr>it_content = transcriptContent validatedData, it_fileName = None\<rparr> st;
               instructions =
                 or_default (customInstructions validatedData) defaultInstructions;
               prompt = instructions @ [LF, LF] @ jsstr ''Transcript:'' @ [LF] @
                        transcriptContent validatedData;
               request = \<lparr>messages = [\<lparr>role = jsstr ''user'', chat_content = prompt\<rparr>],
                          model = jsstr ''llama-3.3-70b-versatile'',
                          temperature = 3 / 10,
                          max_tokens = 2048\<rparr>
           in case groq request of
                Inl err \<Rightarrow>
                  (\<lparr>status = 500, payload = Message (jsstr ''Failed to generate summary'')\<rparr>,
                   st1, [request])
              | Inr completion \<Rightarrow>
                  (let summaryContent = summaryContent_of completion;
                       wordCount = length (js_split_ws (js_trim summaryContent));
                       (summary, st2) =
                         createSummary uuid2 now2
                           \<lparr>is_transcriptId = t_id transcript,
                            is_content = summaryContent,
                            is_customInstructions = Some instructions,
                            is_wordCount = Some (nat_toString wordCount)\<rparr> st1
                   in (\<lparr>status = 200, payload = SummaryJson summary\<rparr>, st2, [request]))))"

text \<open>PATCH /api/summaries/:id\<close>

definition patch_summaries ::
  "jsstring \<Rightarrow> json \<Rightarrow> MemStorage \<Rightarrow> Response \<times> MemStorage" where
  "patch_summaries ident body st =
     (case get_property body (jsstr ''content'') of
        None \<Rightarrow> (\<lparr>status = 500, payload = Message (jsstr ''Failed to update summary'')\<rparr>, st)
      | Some content \<Rightarrow>
          if \<not> truthy content \<or> js_typeof content \<noteq> ''string''
          then (\<lparr>status = 400, payload = Message (jsstr ''Content is required'')\<rparr>, st)
          else (case content of
                  JStr s \<Rightarrow>
                    (case updateSummary ident s st of
                       (None, st') \<Rightarrow>
                         (\<lparr>status = 404, payload = Message (jsstr ''Summary not found'')\<rparr>, st')
                     | (Some updatedSummary, st') \<Rightarrow>
                         (\<lparr>status = 200, payload = SummaryJson updatedSummary\<rparr>, st'))
                | _ \<Rightarrow>
                    (\<lparr>status = 500, payload = Message (jsstr ''Failed to update summary'')\<rparr>,
                     st)))"

text \<open>GET /api/summaries/:id\<close>

definition get_summaries :: "jsstring \<Rightarrow> MemStorage \<Rightarrow> Response" where
  "get_summaries ident st =
     (case getSummary ident st of
        None \<Rightarrow> \<lparr>status = 404, payload = Message (jsstr ''Summary not found'')\<rparr>
      | Some summary \<Rightarrow> \<lparr>status = 200, payload = SummaryJson summary\<rparr>)"

text \<open>
  POST /api/summaries/email. \<open>recipients.map\<close> starts one \<open>sendMail\<close> per recipient before
  \<open>Promise.all\<close> is awaited, so every call is made whatever the others do; the join rejects
  when one of them does.
\<close>

definition emailBody_of :: "jsstring option \<Rightarrow> Summary \<Rightarrow> jsstring" where
  "emailBody_of msg summary =
     js_trim ([LF] @ (case msg of None \<Rightarrow> [] | Some m \<Rightarrow> if m = [] then [] else m @ [LF, LF]) @
              [LF] @ jsstr ''---'' @ [LF] @ s_content summary @ [LF] @ jsstr ''---'' @ [LF, LF] @
              jsstr ''This summary was generated using AI and may require review.'' @ [LF] @
              jsstr ''      '')"

definition mailOptions :: "MailWorld \<Rightarrow> jsstring \<Rightarrow> jsstring \<Rightarrow> jsstring \<Rightarrow> MailOptions" where
  "mailOptions world subj emailBody recipient =
     \<lparr>mail_from =
        or_default (SMTP_USER world)
          (or_default (EMAIL_USER world) (jsstr ''noreply@example.com'')),
      mail_to = recipient,
      mail_subject = subj,
      mail_text = emailBody,
      mail_html = replace_newlines emailBody\<rparr>"

definition post_summaries_email ::
  "MailWorld \<Rightarrow> jsstring \<Rightarrow> date \<Rightarrow> json \<Rightarrow> MemStorage \<Rightarrow>
   Response \<times> MemStorage \<times> MailOptions list" where
  "post_summaries_email world uuid now body st =
     (case sendEmailSchema_parse (is_email world) body of
        Inl issues \<Rightarrow>
          (\<lparr>status = 400, payload = InvalidRequest (jsstr ''Invalid request data'') issues\<rparr>,
           st, [])
      | Inr validatedData \<Rightarrow>
          (case getSummary (summaryId validatedData) st of
             None \<Rightarrow>
               (\<lparr>status = 404, payload = Message (jsstr ''Summary not found'')\<rparr>, st, [])
           | Some summary \<Rightarrow>
               (let emailBody = emailBody_of (email_message validatedData) summary;
                    mails =
                      map (mailOptions world (subject validatedData) emailBody)
                          (recipients validatedData);
                    outcomes = map (\<lambda>(i, mail). sendMail world i mail) (enumerate 0 mails)
                in if list_ex isl outcomes
                   then (\<lparr>status = 500, payload = Message (jsstr ''Failed to send email'')\<rparr>,
                         st, mails)
                   else (let (emailShare, st') =
                               createEmailShare uuid now
                                 \<lparr>ie_summaryId = summaryId validatedData,
                                  ie_recipients =
                                    JSON_stringify world (recipients validatedData),
                                  ie_subject = subject validatedData,
                                  ie_message = or_null (email_message validatedData)\<rparr> st
                         in (\<lparr>status = 200,
                              payload =
                                EmailSent
                                  (jsstr ''Summary sent successfully to '' @
                                   nat_toString (length (recipients validatedData)) @
                                   jsstr '' recipient(s)'')
                                  emailShare\<rparr>,
                             st', mails)))))"


section \<open>Counting by the words of the specification\<close>

text \<open>
  The specification counts what the white-space runs of the trimmed content separate. The
  two functions below count directly on the string, without splitting it:
  \<open>count_ws_runs\<close> the maximal runs of white space (each counted where it ends), and
  \<open>count_words\<close> the maximal runs of other characters (each counted where it ends).
  Runs of white space separate one piece more than there are runs.
\<close>

fun count_ws_runs :: "jsstring \<Rightarrow> nat" where
  "count_ws_runs [] = 0"
| "count_ws_runs [c] = (if is_space c then 1 else 0)"
| "count_ws_runs (c # d # cs) =
     (if is_space c \<and> \<not> is_space d then 1 else 0) + count_ws_runs (d # cs)"

fun count_words :: "jsstring \<Rightarrow> nat" where
  "count_words [] = 0"
| "count_words [c] = (if is_space c then 0 else 1)"
| "count_words (c # d # cs) =
     (if \<not> is_space c \<and> is_space d then 1 else 0) + count_words (d # cs)"

definition whitespace_separated_runs :: "jsstring \<Rightarrow> nat" where
  "whitespace_separated_runs t = Suc (count_ws_runs t)"


section \<open>Example data\<close>

text \<open>
  Concrete storages, request bodies and collaborators on which the theorems below are
  instantiated. In \<open>world_failing k\<close> the transport rejects the call at position \<open>k\<close> and
  resolves every other one; its address check and its serialisation are simple stand-ins for
  the library functions.
\<close>

definition summary_a :: InsertSummary where
  "summary_a = \<lparr>is_transcriptId = jsstr ''t1'', is_content = jsstr ''old text'',
                 is_customInstructions = Some (jsstr ''short''),
                 is_wordCount = Some (jsstr ''2'')\<rparr>"

definition summary_b :: InsertSummary where
  "summary_b = \<lparr>is_transcriptId = jsstr ''t2'', is_content = jsstr ''other'',
                 is_customInstructions = None, is_wordCount = Some (jsstr ''1'')\<rparr>"

definition summary_c :: InsertSummary where
  "summary_c = \<lparr>is_transcriptId = jsstr ''t1'', is_content = jsstr ''third one here'',
                 is_customInstructions = None, is_wordCount = Some (jsstr ''3'')\<rparr>"

definition store_a :: MemStorage where
  "store_a = snd (createSummary (jsstr ''s1'') 1000 summary_a new_MemStorage)"

definition store_abc :: MemStorage where
  "store_abc =
     snd (createSummary (jsstr ''s3'') 3000 summary_c
       (snd (createSummary (jsstr ''s2'') 2000 summary_b store_a)))"


definition body_generate :: json where
  "body_generate =
     JObj [(jsstr ''transcriptContent'', JStr (jsstr ''Alice: let's ship Friday. Bob: agreed.'')),
           (jsstr ''wordCount'', JStr (jsstr ''999''))]"

definition groq_reply :: "jsstring option \<Rightarrow> ChatRequest \<Rightarrow> jsstring + ChatCompletion" where
  "groq_reply text request =
     Inr \<lparr>choices = [\<lparr>choice_message = Some \<lparr>completion_content = text\<rparr>\<rparr>]\<rparr>"

definition body_transcript :: json where
  "body_transcript = JObj [(jsstr ''content'', JStr (jsstr ''   ''))]"

definition body_email :: "json list \<Rightarrow> json" where
  "body_email rs =
     JObj [(jsstr ''summaryId'', JStr (jsstr ''s1'')), (jsstr ''recipients'', JArr rs),
           (jsstr ''subject'', JStr (jsstr ''Notes''))]"

definition world_failing :: "nat \<Rightarrow> MailWorld" where
  "world_failing k =
     \<lparr>is_email = (\<lambda>s. of_char CHR ''@'' \<in> set s),
      JSON_stringify = concat,
      SMTP_USER = None,
      EMAIL_USER = None,
      sendMail = (\<lambda>i mail. if i = k then Inl (jsstr ''connection refused'') else Inr ())\<rparr>"


section \<open>Facts about the map\<close>

lemma map_get_map_set:
  "map_get (map_set k v m) k' = (if k' = k then Some v else map_get m k')"
  by (induction m) (auto simp: map_get_def)

lemma map_set_present_keys:
  "map_get m k = Some v0 \<Longrightarrow> map fst (map_set k v m) = map fst m"
  by (induction m) (auto simp: map_get_def split: if_splits)

lemma map_set_fresh:
  "map_get m k = None \<Longrightarrow> map_set k v m = m @ [(k, v)]"
  by (induction m) (auto simp: map_get_def split: if_splits)


section \<open>Facts about trimming, splitting and counting\<close>

lemma count_ws_runs_space:
  "is_space c \<Longrightarrow> count_ws_runs (c # cs) = Suc (count_ws_runs (dropWhile is_space cs))"
  by (induction cs arbitrary: c) auto

lemma count_ws_runs_nonspace:
  "\<not> is_space c \<Longrightarrow> count_ws_runs (c # cs) = count_ws_runs cs"
  by (cases cs) auto

lemma length_split_from:
  "length (split_from piece s) = Suc (count_ws_runs s)"
  by (induction piece s rule: split_from.induct)
     (simp_all add: count_ws_runs_space count_ws_runs_nonspace del: count_ws_runs.simps(3))

lemma length_js_split_ws:
  "length (js_split_ws s) = whitespace_separated_runs s"
  by (simp add: js_split_ws_def whitespace_separated_runs_def length_split_from)

lemma words_and_runs:
  "s \<noteq> [] \<Longrightarrow>
     Suc (count_words s) =
       count_ws_runs s + (if is_space (hd s) then 0 else 1) + (if is_space (last s) then 0 else 1)"
  by (induction s rule: count_words.induct) auto

lemma dropWhile_all_dropped:
  assumes "\<forall>x\<in>set (dropWhile P xs). P x"
  shows "dropWhile P xs = []"
proof (rule ccontr)
  assume ne: "dropWhile P xs \<noteq> []"
  then have "\<not> P (hd (dropWhile P xs))" by (rule hd_dropWhile)
  moreover from ne have "hd (dropWhile P xs) \<in> set (dropWhile P xs)" by simp
  ultimately show False using assms by blast
qed

lemma js_trim_empty_iff:
  "js_trim s = [] \<longleftrightarrow> list_all is_space s"
proof
  assume "js_trim s = []"
  then have "\<forall>x\<in>set (dropWhile is_space s). is_space x"
    by (simp add: js_trim_def)
  then have "dropWhile is_space s = []" by (rule dropWhile_all_dropped)
  then show "list_all is_space s" by (simp add: list_all_iff)
next
  assume "list_all is_space s"
  then have "dropWhile is_space s = []" by (simp add: list_all_iff)
  then show "js_trim s = []" by (simp only: js_trim_def rev.simps dropWhile.simps)
qed

lemma js_trim_ends:
  assumes "js_trim s \<noteq> []"
  shows "\<not> is_space (hd (js_trim s))" and "\<not> is_space (last (js_trim s))"
proof -
  let ?t = "dropWhile is_space s"
  let ?u = "dropWhile is_space (rev ?t)"
  from assms have u: "?u \<noteq> []" by (simp add: js_trim_def)
  have t: "?t \<noteq> []"
  proof
    assume "?t = []"
    then have "?u = []" by (simp only: rev.simps dropWhile.simps)
    with u show False by simp
  qed
  have "last (js_trim s) = hd ?u" using u by (simp add: js_trim_def last_rev)
  then show "\<not> is_space (last (js_trim s))" using u hd_dropWhile by metis
  have "hd (js_trim s) = last ?u" using u by (simp add: js_trim_def hd_rev)
  also have "\<dots> = last (rev ?t)"
    by (metis u takeWhile_dropWhile_id last_appendR)
  also have "\<dots> = hd ?t" using t by (simp add: last_rev)
  finally show "\<not> is_space (hd (js_trim s))" using t hd_dropWhile by metis
qed

lemma trimmed_runs_are_words:
  "js_trim s \<noteq> [] \<Longrightarrow> whitespace_separated_runs (js_trim s) = count_words (js_trim s)"
  using words_and_runs [of "js_trim s"] js_trim_ends [of s]
  by (simp add: whitespace_separated_runs_def)

lemma count_words_dropWhile:
  "count_words (dropWhile is_space s) = count_words s"
  by (induction s rule: count_words.induct) auto

lemma count_words_spaces:
  "list_all is_space ws \<Longrightarrow> count_words ws = 0"
  by (induction ws rule: count_words.induct) auto

lemma count_words_append_spaces:
  "list_all is_space ws \<Longrightarrow> count_words (u @ ws) = count_words u"
proof (induction u rule: count_words.induct)
  case 1
  then show ?case by (simp add: count_words_spaces)
next
  case (2 c)
  then show ?case by (cases ws) (auto simp: count_words_spaces)
next
  case (3 c d cs)
  then show ?case by auto
qed

lemma count_words_js_trim:
  "count_words (js_trim s) = count_words s"
proof -
  let ?t = "dropWhile is_space s"
  have "rev (takeWhile is_space (rev ?t) @ dropWhile is_space (rev ?t)) = ?t"
    by (simp only: takeWhile_dropWhile_id rev_rev_ident)
  then have "?t = js_trim s @ rev (takeWhile is_space (rev ?t))"
    by (simp only: rev_append js_trim_def)
  moreover have "list_all is_space (rev (takeWhile is_space (rev ?t)))"
    by (auto simp: list_all_iff dest: set_takeWhileD)
  ultimately have "count_words ?t = count_words (js_trim s)"
    using count_words_append_spaces by metis
  then show ?thesis by (simp add: count_words_dropWhile)
qed

lemma nat_toString_nonempty: "nat_toString n \<noteq> []"
  by (subst nat_toString.simps) simp

lemma nat_toString_zero_iff: "nat_toString n = jsstr ''0'' \<longleftrightarrow> n = 0"
proof (cases "n < 10")
  case True
  then have "n \<in> {0,1,2,3,4,5,6,7,8,9}" by auto
  then show ?thesis
    by (subst nat_toString.simps) (auto simp: jsstr_def digit_char_def)
next
  case False
  then show ?thesis
    using nat_toString_nonempty [of "n div 10"]
    by (subst nat_toString.simps) (auto simp: jsstr_def)
qed

lemma nat_toString_one: "nat_toString (Suc 0) = jsstr ''1''"
  by (subst nat_toString.simps) (simp add: jsstr_def digit_char_def)


section \<open>The storage operations\<close>

lemmas store_eval = store_a_def store_abc_def summary_a_def summary_b_def summary_c_def
  createSummary_def new_MemStorage_def getSummary_def map_get_def
  jsstr_def or_null_def Let_def

lemma store_a_summaries:
  "summaries store_a =
     [(jsstr ''s1'', \<lparr>s_id = jsstr ''s1'', s_transcriptId = jsstr ''t1'',
        s_content = jsstr ''old text'', s_customInstructions = Some (jsstr ''short''),
        s_wordCount = Some (jsstr ''2''), s_createdAt = 1000\<rparr>)]"
  by (simp add: store_eval)

lemma store_abc_summaries:
  "summaries store_abc =
     [(jsstr ''s1'', \<lparr>s_id = jsstr ''s1'', s_transcriptId = jsstr ''t1'',
        s_content = jsstr ''old text'', s_customInstructions = Some (jsstr ''short''),
        s_wordCount = Some (jsstr ''2''), s_createdAt = 1000\<rparr>),
      (jsstr ''s2'', \<lparr>s_id = jsstr ''s2'', s_transcriptId = jsstr ''t2'',
        s_content = jsstr ''other'', s_customInstructions = None,
        s_wordCount = Some (jsstr ''1''), s_createdAt = 2000\<rparr>),
      (jsstr ''s3'', \<lparr>s_id = jsstr ''s3'', s_transcriptId = jsstr ''t1'',
        s_content = jsstr ''third one here'', s_customInstructions = None,
        s_wordCount = Some (jsstr ''3''), s_createdAt = 3000\<rparr>)]"
  by (simp add: store_eval)

lemma wordCount_one_two_three:
  "nat_toString (length (js_split_ws (js_trim (jsstr ''one two three'')))) = jsstr ''3''"
  by (simp add: jsstr_def js_trim_def js_split_ws_def is_space_def nat_toString.simps
      digit_char_def)

lemma wordCount_a_b:
  "nat_toString (length (js_split_ws (js_trim (jsstr ''  a   b  '')))) = jsstr ''2''"
  by (simp add: jsstr_def js_trim_def js_split_ws_def is_space_def nat_toString.simps
      digit_char_def)

lemma updateSummary_present:
  "getSummary ident st = Some old \<Longrightarrow>
   updateSummary ident content st =
     (Some (old\<lparr>s_content := content,
                s_wordCount := Some (nat_toString (length (js_split_ws (js_trim content))))\<rparr>),
      st\<lparr>summaries :=
           map_set ident
             (old\<lparr>s_content := content,
                   s_wordCount := Some (nat_toString (length (js_split_ws (js_trim content))))\<rparr>)
             (summaries st)\<rparr>)"
  by (simp add: getSummary_def updateSummary_def Let_def)

lemma updateSummary_Some:
  "updateSummary ident content st = (Some new, st') \<Longrightarrow>
   s_content new = content \<and>
   s_wordCount new = Some (nat_toString (length (js_split_ws (js_trim content)))) \<and>
   getSummary ident st' = Some new"
  by (auto simp: getSummary_def updateSummary_def Let_def map_get_map_set split: option.splits)


text \<open>
  Claim C3. For every stored summary id, \<open>updateSummary\<close> with content "one two three" stores
  the word count "3" and with content "  a   b  " the word count "2". In general, content
  that holds a character other than white space gets the number of its words (maximal runs of
  such characters): white space at the ends is trimmed and a run of white space of any length
  inside separates once.
\<close>

theorem updateSummary_word_count_examples:
  assumes "getSummary ident st = Some old"
  shows "(\<exists>new st'. updateSummary ident (jsstr ''one two three'') st = (Some new, st') \<and>
            s_wordCount new = Some (jsstr ''3'') \<and> getSummary ident st' = Some new) \<and>
         (\<exists>new st'. updateSummary ident (jsstr ''  a   b  '') st = (Some new, st') \<and>
            s_wordCount new = Some (jsstr ''2'') \<and> getSummary ident st' = Some new) \<and>
         (\<forall>content. \<not> list_all is_space content \<longrightarrow>
            (\<exists>new st'. updateSummary ident content st = (Some new, st') \<and>
               s_wordCount new = Some (nat_toString (count_words content)) \<and>
               getSummary ident st' = Some new))"
proof (intro conjI allI impI)
  show "\<exists>new st'. updateSummary ident (jsstr ''one two three'') st = (Some new, st') \<and>
           s_wordCount new = Some (jsstr ''3'') \<and> getSummary ident st' = Some new"
    using updateSummary_present [OF assms, of "jsstr ''one two three''"]
      updateSummary_Some [of ident "jsstr ''one two three''" st]
    by (simp add: wordCount_one_two_three)
  show "\<exists>new st'. updateSummary ident (jsstr ''  a   b  '') st = (Some new, st') \<and>
           s_wordCount new = Some (jsstr ''2'') \<and> getSummary ident st' = Some new"
    using updateSummary_present [OF assms, of "jsstr ''  a   b  ''"]
      updateSummary_Some [of ident "jsstr ''  a   b  ''" st]
    by (simp add: wordCount_a_b)
next
  fix content
  assume ne: "\<not> list_all is_space content"
  then have "js_trim content \<noteq> []" by (simp add: js_trim_empty_iff)
  then have "length (js_split_ws (js_trim content)) = count_words content"
    by (simp add: length_js_split_ws trimmed_runs_are_words count_words_js_trim)
  then show "\<exists>new st'. updateSummary ident content st = (Some new, st') \<and>
               s_wordCount new = Some (nat_toString (count_words content)) \<and>
               getSummary ident st' = Some new"
    using updateSummary_present [OF assms, of content]
      updateSummary_Some [of ident content st]
    by simp
qed

theorem updateSummary_word_count_examples_witness:
  "getSummary (jsstr ''s1'') store_a \<noteq> None \<and>
   (\<exists>new st'. updateSummary (jsstr ''s1'') (jsstr ''one two three'') store_a = (Some new, st') \<and>
      s_wordCount new = Some (jsstr ''3'') \<and> getSummary (jsstr ''s1'') st' = Some new) \<and>
   (\<exists>new st'. updateSummary (jsstr ''s1'') (jsstr ''  a   b  '') store_a = (Some new, st') \<and>
      s_wordCount new = Some (jsstr ''2'') \<and> getSummary (jsstr ''s1'') st' = Some new)"
proof -
  have h: "getSummary (jsstr ''s1'') store_a =
      Some \<lparr>s_id = jsstr ''s1'', s_transcriptId = jsstr ''t1'',
        s_content = jsstr ''old text'', s_customInstructions = Some (jsstr ''short''),
        s_wordCount = Some (jsstr ''2''), s_createdAt = 1000\<rparr>"
    by (simp add: store_eval)
  from updateSummary_word_count_examples [OF h] h show ?thesis by simp
qed

text \<open>
  Claim C6. For an id that is not in the summary store, \<open>updateSummary\<close> returns the
  "not found" value (the operation has no failing branch), and the storage it leaves is the
  storage it was given: no record is created and none is changed.
\<close>

theorem updateSummary_unknown_id:
  "getSummary ident st = None \<Longrightarrow> updateSummary ident content st = (None, st)"
  by (simp add: getSummary_def updateSummary_def)

theorem updateSummary_unknown_id_witness:
  "getSummary (jsstr ''s9'') store_abc = None \<and>
   updateSummary (jsstr ''s9'') (jsstr ''new text'') store_abc = (None, store_abc) \<and>
   map fst (summaries store_abc) = [jsstr ''s1'', jsstr ''s2'', jsstr ''s3'']"
proof -
  have h: "getSummary (jsstr ''s9'') store_abc = None"
    by (simp add: store_eval)
  from h updateSummary_unknown_id [OF h, of "jsstr ''new text''"] show ?thesis
    by (simp add: store_abc_summaries)
qed

text \<open>
  Claim C7. For a summary present in the store, \<open>updateSummary\<close> returns and stores the old
  record with the content and the word count replaced and nothing else: id, transcriptId,
  customInstructions and createdAt are those of the old record. The other summaries, the
  transcripts and the e-mail shares stay as they were.
\<close>

theorem updateSummary_frame:
  assumes "getSummary ident st = Some old"
  shows "\<exists>new st'. updateSummary ident content st = (Some new, st') \<and>
           getSummary ident st' = Some new \<and>
           new = old\<lparr>s_content := s_content new, s_wordCount := s_wordCount new\<rparr> \<and>
           s_content new = content \<and>
           s_id new = s_id old \<and> s_transcriptId new = s_transcriptId old \<and>
           s_customInstructions new = s_customInstructions old \<and>
           s_createdAt new = s_createdAt old \<and>
           (\<forall>other. other \<noteq> ident \<longrightarrow> getSummary other st' = getSummary other st) \<and>
           transcripts st' = transcripts st \<and> emailShares st' = emailShares st"
  using updateSummary_present [OF assms, of content]
  by (simp add: getSummary_def map_get_map_set)

theorem updateSummary_frame_witness:
  "getSummary (jsstr ''s3'') store_abc \<noteq> None \<and>
   (\<exists>new st'. updateSummary (jsstr ''s3'') (jsstr ''brand new text'') store_abc = (Some new, st') \<and>
      getSummary (jsstr ''s3'') st' = Some new \<and>
      s_content new = jsstr ''brand new text'' \<and> s_id new = jsstr ''s3'' \<and>
      s_transcriptId new = jsstr ''t1'' \<and> s_customInstructions new = None \<and>
      s_createdAt new = 3000)"
proof -
  have h: "getSummary (jsstr ''s3'') store_abc =
      Some \<lparr>s_id = jsstr ''s3'', s_transcriptId = jsstr ''t1'',
        s_content = jsstr ''third one here'', s_customInstructions = None,
        s_wordCount = Some (jsstr ''3''), s_createdAt = 3000\<rparr>"
    by (simp add: store_eval)
  from updateSummary_frame [OF h, of "jsstr ''brand new text''"] h show ?thesis
    by auto
qed

text \<open>
  Claim C8. \<open>getSummariesByTranscriptId\<close> returns the stored summaries whose transcriptId is
  the argument, each as often and in the order as the storage holds them, and the empty list
  when none matches. The order of the storage is the order of insertion: a summary created
  under a new id comes last, and an update leaves the order of the ids as it is.
\<close>

theorem getSummariesByTranscriptId_exact:
  "getSummariesByTranscriptId tid st =
     filter (\<lambda>s. s_transcriptId s = tid) (map_values (summaries st)) \<and>
   subseq (getSummariesByTranscriptId tid st) (map_values (summaries st)) \<and>
   set (getSummariesByTranscriptId tid st) =
     {s \<in> set (map_values (summaries st)). s_transcriptId s = tid} \<and>
   ((\<forall>s \<in> set (map_values (summaries st)). s_transcriptId s \<noteq> tid) \<longrightarrow>
      getSummariesByTranscriptId tid st = []) \<and>
   (getSummary uuid st = None \<longrightarrow>
      getSummariesByTranscriptId tid (snd (createSummary uuid now ins st)) =
        getSummariesByTranscriptId tid st @
        (if is_transcriptId ins = tid then [fst (createSummary uuid now ins st)] else [])) \<and>
   map fst (summaries (snd (updateSummary ident content st))) = map fst (summaries st)"
proof (intro conjI impI)
  show "getSummariesByTranscriptId tid st =
     filter (\<lambda>s. s_transcriptId s = tid) (map_values (summaries st))"
    by (simp add: getSummariesByTranscriptId_def)
  show "subseq (getSummariesByTranscriptId tid st) (map_values (summaries st))"
    by (simp add: getSummariesByTranscriptId_def)
  show "set (getSummariesByTranscriptId tid st) =
     {s \<in> set (map_values (summaries st)). s_transcriptId s = tid}"
    by (simp add: getSummariesByTranscriptId_def)
  show "getSummariesByTranscriptId tid st = []"
    if "\<forall>s \<in> set (map_values (summaries st)). s_transcriptId s \<noteq> tid"
    using that by (simp add: getSummariesByTranscriptId_def filter_empty_conv)
  show "getSummariesByTranscriptId tid (snd (createSummary uuid now ins st)) =
        getSummariesByTranscriptId tid st @
        (if is_transcriptId ins = tid then [fst (createSummary uuid now ins st)] else [])"
    if "getSummary uuid st = None"
    using that
    by (simp add: getSummariesByTranscriptId_def createSummary_def getSummary_def Let_def
        map_set_fresh map_values_def)
  show "map fst (summaries (snd (updateSummary ident content st))) = map fst (summaries st)"
    by (cases "map_get (summaries st) ident")
       (simp_all add: updateSummary_def Let_def map_set_present_keys)
qed

theorem getSummariesByTranscriptId_exact_witness:
  "map s_id (getSummariesByTranscriptId (jsstr ''t1'') store_abc) = [jsstr ''s1'', jsstr ''s3''] \<and>
   map s_id (getSummariesByTranscriptId (jsstr ''t2'') store_abc) = [jsstr ''s2''] \<and>
   jsstr ''t9'' \<notin> set (map s_transcriptId (map_values (summaries store_abc))) \<and>
   getSummariesByTranscriptId (jsstr ''t9'') store_abc = []"
proof -
  have none: "\<forall>s \<in> set (map_values (summaries store_abc)). s_transcriptId s \<noteq> jsstr ''t9''"
    by (simp add: store_abc_summaries map_values_def) (simp add: jsstr_def)
  have t1: "map s_id (filter (\<lambda>s. s_transcriptId s = jsstr ''t1'')
              (map_values (summaries store_abc))) = [jsstr ''s1'', jsstr ''s3'']"
    by (simp add: store_abc_summaries map_values_def) (simp add: jsstr_def)
  have t2: "map s_id (filter (\<lambda>s. s_transcriptId s = jsstr ''t2'')
              (map_values (summaries store_abc))) = [jsstr ''s2'']"
    by (simp add: store_abc_summaries map_values_def) (simp add: jsstr_def)
  from getSummariesByTranscriptId_exact [of "jsstr ''t1''" store_abc]
    getSummariesByTranscriptId_exact [of "jsstr ''t2''" store_abc]
    getSummariesByTranscriptId_exact [of "jsstr ''t9''" store_abc] none t1 t2
  show ?thesis by auto
qed


lemma of_char_word16_inj: "(of_char c :: 16 word) = of_char d \<longleftrightarrow> c = d"
proof
  assume eq: "(of_char c :: 16 word) = of_char d"
  have lt: "(of_char x :: nat) < 2 ^ 16" for x :: char
  proof -
    have "(of_char x :: nat) < 256" by (rule nat_of_char_less_256)
    also have "(256::nat) < 2 ^ 16" by simp
    finally show ?thesis .
  qed
  have "unat (of_nat (of_char c) :: 16 word) = unat (of_nat (of_char d) :: 16 word)"
    using eq by (simp add: of_nat_of_char)
  then have "(of_char c :: nat) = of_char d"
    using lt [of c] lt [of d] by (simp add: unat_of_nat take_bit_nat_eq_self)
  then show "c = d" by simp
qed simp

lemma jsstr_eq_iff: "jsstr a = jsstr b \<longleftrightarrow> a = b"
  unfolding jsstr_def
  by (rule inj_map_eq_map) (simp add: inj_def of_char_word16_inj)


section \<open>The generate handler\<close>

lemma get_property_defined:
  assumes "get_property body k = Some v" and "v \<noteq> JUndefined"
  shows "\<exists>props. body = JObj props \<and> object_property props k = v"
  using assms by (cases body) (auto simp: object_property_def)

lemma issues_of_Inl: "issues_of (Inl issues) = issues"
  by (simp add: issues_of_def)

lemma or_null_nat_toString: "or_null (Some (nat_toString n)) = Some (nat_toString n)"
  by (simp add: or_null_def nat_toString_nonempty)

lemma defaultInstructions_nonempty: "defaultInstructions \<noteq> []"
  by (simp add: defaultInstructions_def jsstr_def)

lemma or_default_nonempty: "d \<noteq> [] \<Longrightarrow> or_default x d \<noteq> []"
  by (simp add: or_default_def split: option.splits)

lemma post_summaries_generate_completed:
  assumes "post_summaries_generate groq u1 n1 u2 n2 body st =
             (\<lparr>status = 200, payload = SummaryJson summary\<rparr>, st', calls)"
  shows "s_wordCount summary =
           Some (nat_toString (length (js_split_ws (js_trim (s_content summary))))) \<and>
         getSummary u2 st' = Some summary"
  using assms
  by (auto simp: post_summaries_generate_def createSummary_def createTranscript_def Let_def
      or_null_nat_toString getSummary_def map_get_map_set
      split: sum.splits prod.splits)

lemma generateSummarySchema_parse_ignores_wordCount:
  "generateSummarySchema_parse (JObj ((jsstr ''wordCount'', v) # props)) =
   generateSummarySchema_parse (JObj props)"
  by (simp add: generateSummarySchema_parse_def object_property_def jsstr_eq_iff)

lemma post_summaries_generate_success:
  assumes "generateSummarySchema_parse body = Inr req"
    and "groq \<lparr>messages = [\<lparr>role = jsstr ''user'',
                                chat_content = or_default (customInstructions req) defaultInstructions @
                                  [LF, LF] @ jsstr ''Transcript:'' @ [LF] @ transcriptContent req\<rparr>],
                model = jsstr ''llama-3.3-70b-versatile'',
                temperature = 3 / 10, max_tokens = 2048\<rparr> = Inr completion"
  shows "\<exists>st'. post_summaries_generate groq u1 n1 u2 n2 body st =
           (\<lparr>status = 200,
             payload = SummaryJson
               \<lparr>s_id = u2, s_transcriptId = u1, s_content = summaryContent_of completion,
                s_customInstructions = Some (or_default (customInstructions req) defaultInstructions),
                s_wordCount =
                  Some (nat_toString (length (js_split_ws (js_trim (summaryContent_of completion))))),
                s_createdAt = n2\<rparr>\<rparr>,
            st',
            [\<lparr>messages = [\<lparr>role = jsstr ''user'',
                           chat_content = or_default (customInstructions req) defaultInstructions @
                             [LF, LF] @ jsstr ''Transcript:'' @ [LF] @ transcriptContent req\<rparr>],
              model = jsstr ''llama-3.3-70b-versatile'',
              temperature = 3 / 10, max_tokens = 2048\<rparr>])"
proof -
  have "or_null (Some (or_default (customInstructions req) defaultInstructions)) =
      Some (or_default (customInstructions req) defaultInstructions)"
    using or_default_nonempty [OF defaultInstructions_nonempty, of "customInstructions req"]
    by (simp add: or_null_def)
  then show ?thesis
    using assms
    by (simp add: post_summaries_generate_def createSummary_def createTranscript_def Let_def
        or_null_nat_toString)
qed

lemma body_generate_parse:
  "generateSummarySchema_parse body_generate =
     Inr \<lparr>transcriptContent = jsstr ''Alice: let's ship Friday. Bob: agreed.'',
          customInstructions = None\<rparr>"
  by (simp add: body_generate_def generateSummarySchema_parse_def object_property_def
      parse_string_min1_def parse_string_optional_def jsstr_eq_iff Let_def)
     (simp add: jsstr_def)

lemma split_Ship_on_Friday:
  "nat_toString (length (js_split_ws (js_trim (jsstr ''Ship on Friday.'')))) = jsstr ''3''"
  by (simp add: jsstr_def js_trim_def js_split_ws_def is_space_def nat_toString.simps
      digit_char_def)

lemma generate_run:
  "\<exists>st' calls.
     post_summaries_generate (groq_reply (Some (jsstr ''Ship on Friday.'')))
       (jsstr ''t7'') 7000 (jsstr ''s7'') 7001 body_generate new_MemStorage =
     (\<lparr>status = 200,
       payload = SummaryJson
         \<lparr>s_id = jsstr ''s7'', s_transcriptId = jsstr ''t7'',
          s_content = jsstr ''Ship on Friday.'',
          s_customInstructions = Some defaultInstructions,
          s_wordCount = Some (jsstr ''3''), s_createdAt = 7001\<rparr>\<rparr>, st', calls)"
proof -
  have c: "summaryContent_of \<lparr>choices = [\<lparr>choice_message =
             Some \<lparr>completion_content = Some (jsstr ''Ship on Friday.'')\<rparr>\<rparr>]\<rparr> =
           jsstr ''Ship on Friday.''"
    by (simp add: summaryContent_of_def or_default_def jsstr_def)
  from post_summaries_generate_success [OF body_generate_parse,
      of "groq_reply (Some (jsstr ''Ship on Friday.''))" _ "jsstr ''t7''" 7000 "jsstr ''s7''" 7001
      new_MemStorage]
  show ?thesis
    by (auto simp: groq_reply_def c split_Ship_on_Friday or_default_def)
qed

text \<open>
  Claim C1. Whenever the content of a summary is set or updated, the stored word count is the
  number of pieces that the white-space runs of the trimmed content separate, as a decimal
  string: for \<open>updateSummary\<close>, and for \<open>createSummary\<close> as the generate handler calls it
  (the only handler that does). The count is computed from the content: a \<open>wordCount\<close> key in
  the request body changes nothing. When the trimmed content is not empty, the count is the
  number of its words.
\<close>

theorem wordCount_recomputed:
  "(updateSummary ident content st = (Some new, st') \<longrightarrow>
      s_content new = content \<and>
      s_wordCount new = Some (nat_toString (whitespace_separated_runs (js_trim content))) \<and>
      getSummary ident st' = Some new) \<and>
   (post_summaries_generate groq u1 n1 u2 n2 body st =
      (\<lparr>status = 200, payload = SummaryJson summary\<rparr>, st'', calls) \<longrightarrow>
      s_wordCount summary =
        Some (nat_toString (whitespace_separated_runs (js_trim (s_content summary)))) \<and>
      getSummary u2 st'' = Some summary) \<and>
   post_summaries_generate groq u1 n1 u2 n2 (JObj ((jsstr ''wordCount'', v) # props)) st =
     post_summaries_generate groq u1 n1 u2 n2 (JObj props) st \<and>
   (js_trim content \<noteq> [] \<longrightarrow>
      whitespace_separated_runs (js_trim content) = count_words content)"
proof (intro conjI impI)
  assume "updateSummary ident content st = (Some new, st')"
  from updateSummary_Some [OF this]
  show "s_content new = content"
    and "s_wordCount new = Some (nat_toString (whitespace_separated_runs (js_trim content)))"
    and "getSummary ident st' = Some new"
    by (simp_all add: length_js_split_ws)
next
  assume "post_summaries_generate groq u1 n1 u2 n2 body st =
      (\<lparr>status = 200, payload = SummaryJson summary\<rparr>, st'', calls)"
  from post_summaries_generate_completed [OF this]
  show "s_wordCount summary =
        Some (nat_toString (whitespace_separated_runs (js_trim (s_content summary))))"
    and "getSummary u2 st'' = Some summary"
    by (simp_all add: length_js_split_ws)
next
  show "post_summaries_generate groq u1 n1 u2 n2 (JObj ((jsstr ''wordCount'', v) # props)) st =
     post_summaries_generate groq u1 n1 u2 n2 (JObj props) st"
    by (simp only: post_summaries_generate_def generateSummarySchema_parse_ignores_wordCount)
next
  assume "js_trim content \<noteq> []"
  then show "whitespace_separated_runs (js_trim content) = count_words content"
    by (simp add: trimmed_runs_are_words count_words_js_trim)
qed

theorem wordCount_recomputed_witness:
  "(\<exists>new st'. updateSummary (jsstr ''s1'') (jsstr '' a  b c '') store_a = (Some new, st') \<and>
      s_wordCount new = Some (nat_toString (whitespace_separated_runs (jsstr ''a  b c''))) \<and>
      nat_toString (whitespace_separated_runs (jsstr ''a  b c'')) = jsstr ''3'') \<and>
   (\<exists>summary st' calls.
      post_summaries_generate (groq_reply (Some (jsstr ''Ship on Friday.'')))
        (jsstr ''t7'') 7000 (jsstr ''s7'') 7001 body_generate new_MemStorage =
        (\<lparr>status = 200, payload = SummaryJson summary\<rparr>, st', calls) \<and>
      s_content summary = jsstr ''Ship on Friday.'' \<and>
      s_wordCount summary =
        Some (nat_toString (whitespace_separated_runs (jsstr ''Ship on Friday.''))) \<and>
      getSummary (jsstr ''s7'') st' = Some summary)"
proof -
  let ?g = "post_summaries_generate (groq_reply (Some (jsstr ''Ship on Friday.'')))
        (jsstr ''t7'') 7000 (jsstr ''s7'') 7001 body_generate new_MemStorage"
  let ?u = "updateSummary (jsstr ''s1'') (jsstr '' a  b c '') store_a"
  let ?summary = "\<lparr>s_id = jsstr ''s7'', s_transcriptId = jsstr ''t7'',
          s_content = jsstr ''Ship on Friday.'',
          s_customInstructions = Some defaultInstructions,
          s_wordCount = Some (jsstr ''3''), s_createdAt = 7001\<rparr>"
  have t1: "js_trim (jsstr '' a  b c '') = jsstr ''a  b c''"
    by (simp add: js_trim_def jsstr_def is_space_def)
  have t2: "js_trim (jsstr ''Ship on Friday.'') = jsstr ''Ship on Friday.''"
    by (simp add: js_trim_def jsstr_def is_space_def)
  have c: "nat_toString (whitespace_separated_runs (jsstr ''a  b c'')) = jsstr ''3''"
    by (simp add: whitespace_separated_runs_def jsstr_def is_space_def nat_toString.simps
        digit_char_def)
  have "getSummary (jsstr ''s1'') store_a \<noteq> None"
    by (simp add: store_eval)
  then obtain new st1 where u: "?u = (Some new, st1)"
    by (auto simp: getSummary_def updateSummary_def Let_def)
  from generate_run obtain st2 calls where
    g: "?g = (\<lparr>status = 200, payload = SummaryJson ?summary\<rparr>, st2, calls)"
    by blast
  note W = wordCount_recomputed [where ident = "jsstr ''s1''" and content = "jsstr '' a  b c ''"
      and st = store_a and new = new and st' = st1]
  note W2 = wordCount_recomputed [where st = new_MemStorage
      and groq = "groq_reply (Some (jsstr ''Ship on Friday.''))"
      and ?u1.0 = "jsstr ''t7''" and ?n1.0 = 7000 and ?u2.0 = "jsstr ''s7''" and ?n2.0 = 7001
      and body = body_generate and summary = ?summary and st'' = st2 and calls = calls]
  from W have "?u = (Some new, st1) \<longrightarrow>
      s_content new = jsstr '' a  b c '' \<and>
      s_wordCount new =
        Some (nat_toString (whitespace_separated_runs (js_trim (jsstr '' a  b c '')))) \<and>
      getSummary (jsstr ''s1'') st1 = Some new"
    by (rule conjunct1)
  with u have a: "s_wordCount new =
      Some (nat_toString (whitespace_separated_runs (jsstr ''a  b c'')))"
    by (simp only: t1)
  from W2 have "?g = (\<lparr>status = 200, payload = SummaryJson ?summary\<rparr>, st2, calls) \<longrightarrow>
      s_wordCount ?summary =
        Some (nat_toString (whitespace_separated_runs (js_trim (s_content ?summary)))) \<and>
      getSummary (jsstr ''s7'') st2 = Some ?summary"
    by (rule conjunct1 [OF conjunct2])
  with g have b: "s_wordCount ?summary =
        Some (nat_toString (whitespace_separated_runs (js_trim (s_content ?summary)))) \<and>
      getSummary (jsstr ''s7'') st2 = Some ?summary"
    by (rule rev_mp)
  have b1: "s_wordCount ?summary =
      Some (nat_toString (whitespace_separated_runs (jsstr ''Ship on Friday.'')))"
    using b t2 by (simp only: Summary.select_convs)
  have b2: "getSummary (jsstr ''s7'') st2 = Some ?summary"
    using b by (rule conjunct2)
  have b0: "s_content ?summary = jsstr ''Ship on Friday.''"
    by (simp only: Summary.select_convs)
  show ?thesis
    using u a c g b0 b1 b2 by blast
qed


section \<open>The e-mail handler\<close>

lemma list_ex_outcomes:
  "list_ex isl (map (\<lambda>(i, m). f i m) (enumerate 0 ms)) \<longleftrightarrow> (\<exists>i<length ms. isl (f i (ms ! i)))"
proof
  assume "list_ex isl (map (\<lambda>(i, m). f i m) (enumerate 0 ms))"
  then show "\<exists>i<length ms. isl (f i (ms ! i))"
    by (auto simp: list_ex_iff in_set_enumerate_eq)
next
  assume "\<exists>i<length ms. isl (f i (ms ! i))"
  then obtain i where i: "i < length ms" "isl (f i (ms ! i))" by blast
  then have "(i, ms ! i) \<in> set (enumerate 0 ms)"
    by (simp add: in_set_enumerate_eq)
  with i(2) show "list_ex isl (map (\<lambda>(i, m). f i m) (enumerate 0 ms))"
    by (force simp: list_ex_iff)
qed

text \<open>
  Claim C2. When a send-email request passes validation and its summary is found, and the
  transport rejects the mail of at least one recipient, the response is the server fault 500
  "Failed to send email" and the storage is left as it was: no e-mail share is written. One
  mail per recipient has been passed to the transport all the same.
\<close>

theorem post_summaries_email_send_failure:
  assumes "sendEmailSchema_parse (is_email world) body = Inr req"
    and "getSummary (summaryId req) st = Some summary"
    and "i < length (recipients req)"
    and "isl (sendMail world i
           (mailOptions world (subject req) (emailBody_of (email_message req) summary)
              (recipients req ! i)))"
  shows "\<exists>mails.
           post_summaries_email world uuid now body st =
             (\<lparr>status = 500, payload = Message (jsstr ''Failed to send email'')\<rparr>, st, mails) \<and>
           map mail_to mails = recipients req"
proof -
  let ?mails = "map (mailOptions world (subject req) (emailBody_of (email_message req) summary))
                  (recipients req)"
  have "\<exists>i<length ?mails. isl (sendMail world i (?mails ! i))"
    using assms(3,4) by auto
  then have "list_ex isl (map (\<lambda>(i, m). sendMail world i m) (enumerate 0 ?mails))"
    by (simp only: list_ex_outcomes)
  moreover have "map mail_to ?mails = recipients req"
    by (simp add: mailOptions_def comp_def)
  ultimately show ?thesis
    using assms(1,2) by (simp add: post_summaries_email_def Let_def)
qed

lemma body_email_parse:
  "sendEmailSchema_parse (is_email (world_failing k))
     (body_email [JStr (jsstr ''ann@x.org''), JStr (jsstr ''bob@x.org'')]) =
   Inr \<lparr>summaryId = jsstr ''s1'', recipients = [jsstr ''ann@x.org'', jsstr ''bob@x.org''],
        subject = jsstr ''Notes'', email_message = None\<rparr>"
proof -
  have e: "is_email (world_failing k) (jsstr ''ann@x.org'')"
    "is_email (world_failing k) (jsstr ''bob@x.org'')"
    by (simp_all add: world_failing_def jsstr_def)
  have a: "parse_email_array (is_email (world_failing k)) (jsstr ''recipients'')
      (JArr [JStr (jsstr ''ann@x.org''), JStr (jsstr ''bob@x.org'')]) =
      Inr [jsstr ''ann@x.org'', jsstr ''bob@x.org'']"
    by (simp add: parse_email_array_def parse_email_element_def enumerate_eq_zip e)
  have n: "jsstr ''s1'' \<noteq> []" "jsstr ''Notes'' \<noteq> []"
    by (simp_all add: jsstr_def)
  show ?thesis
    by (simp add: body_email_def sendEmailSchema_parse_def object_property_def jsstr_eq_iff
        a parse_string_min1_def parse_string_optional_def n Let_def)
qed

lemma store_a_s1:
  "getSummary (jsstr ''s1'') store_a =
     Some \<lparr>s_id = jsstr ''s1'', s_transcriptId = jsstr ''t1'',
        s_content = jsstr ''old text'', s_customInstructions = Some (jsstr ''short''),
        s_wordCount = Some (jsstr ''2''), s_createdAt = 1000\<rparr>"
  by (simp add: store_eval)

theorem post_summaries_email_send_failure_witness:
  "sendEmailSchema_parse (is_email (world_failing 1))
     (body_email [JStr (jsstr ''ann@x.org''), JStr (jsstr ''bob@x.org'')]) =
   Inr \<lparr>summaryId = jsstr ''s1'', recipients = [jsstr ''ann@x.org'', jsstr ''bob@x.org''],
        subject = jsstr ''Notes'', email_message = None\<rparr> \<and>
   getSummary (jsstr ''s1'') store_a \<noteq> None \<and>
   (\<forall>mail. isl (sendMail (world_failing 1) 1 mail)) \<and>
   (\<exists>mails.
      post_summaries_email (world_failing 1) (jsstr ''e1'') 5000
        (body_email [JStr (jsstr ''ann@x.org''), JStr (jsstr ''bob@x.org'')]) store_a =
        (\<lparr>status = 500, payload = Message (jsstr ''Failed to send email'')\<rparr>, store_a, mails) \<and>
      map mail_to mails = [jsstr ''ann@x.org'', jsstr ''bob@x.org'']) \<and>
   emailShares store_a = []"
proof -
  have f: "isl (sendMail (world_failing 1) 1 mail)" for mail
    by (simp add: world_failing_def)
  have e: "emailShares store_a = []"
    by (simp add: store_eval)
  from post_summaries_email_send_failure [OF body_email_parse [of 1], of store_a _ 1
      "jsstr ''e1''" 5000] store_a_s1 f e body_email_parse [of 1]
  show ?thesis by simp
qed

text \<open>
  Claim C4. A send-email request whose \<open>recipients\<close> is the empty array fails validation:
  the response is the client error 400 with the issue "At least one recipient is required",
  the storage is left as it was (no e-mail share is created) and no mail is passed to the
  transport.
\<close>

theorem post_summaries_email_empty_recipients:
  assumes "get_property body (jsstr ''recipients'') = Some (JArr [])"
  shows "\<exists>issues.
           post_summaries_email world uuid now body st =
             (\<lparr>status = 400,
               payload = InvalidRequest (jsstr ''Invalid request data'') issues\<rparr>, st, []) \<and>
           \<lparr>code = too_small, path = [Key (jsstr ''recipients'')],
            message = Some (jsstr ''At least one recipient is required'')\<rparr> \<in> set issues"
proof -
  from get_property_defined [OF assms] obtain props where
    body: "body = JObj props" and
    r: "object_property props (jsstr ''recipients'') = JArr []"
    by auto
  have p: "parse_email_array (is_email world) (jsstr ''recipients'') (JArr []) =
      Inl [\<lparr>code = too_small, path = [Key (jsstr ''recipients'')],
            message = Some (jsstr ''At least one recipient is required'')\<rparr>]"
    by (simp add: parse_email_array_def)
  let ?r1 = "parse_string_min1 (jsstr ''summaryId'') (jsstr ''Summary ID is required'')
               (object_property props (jsstr ''summaryId''))"
  let ?r3 = "parse_string_min1 (jsstr ''subject'') (jsstr ''Subject is required'')
               (object_property props (jsstr ''subject''))"
  let ?r4 = "parse_string_optional (jsstr ''message'') (object_property props (jsstr ''message''))"
  let ?issue = "\<lparr>code = too_small, path = [Key (jsstr ''recipients'')],
                 message = Some (jsstr ''At least one recipient is required'')\<rparr>"
  have "sendEmailSchema_parse (is_email world) body =
          Inl (issues_of ?r1 @ [?issue] @ issues_of ?r3 @ issues_of ?r4)"
    unfolding body sendEmailSchema_parse_def Let_def json.case r p issues_of_Inl
    by (simp split: sum.splits)
  then have "\<exists>issues. sendEmailSchema_parse (is_email world) body = Inl issues \<and>
      ?issue \<in> set issues"
    by simp
  then obtain issues where
    i: "sendEmailSchema_parse (is_email world) body = Inl issues" and m: "?issue \<in> set issues"
    by blast
  show ?thesis by (simp add: post_summaries_email_def i m)
qed


theorem post_summaries_email_empty_recipients_witness:
  "get_property (body_email []) (jsstr ''recipients'') = Some (JArr []) \<and>
   (\<exists>issues.
      post_summaries_email (world_failing 7) (jsstr ''e1'') 5000 (body_email []) store_a =
        (\<lparr>status = 400,
          payload = InvalidRequest (jsstr ''Invalid request data'') issues\<rparr>, store_a, []) \<and>
      \<lparr>code = too_small, path = [Key (jsstr ''recipients'')],
       message = Some (jsstr ''At least one recipient is required'')\<rparr> \<in> set issues)"
proof -
  have h: "get_property (body_email []) (jsstr ''recipients'') = Some (JArr [])"
    by (simp add: body_email_def jsstr_eq_iff)
  from post_summaries_email_empty_recipients [OF h] h show ?thesis by simp
qed

lemma post_summaries_email_success:
  assumes "sendEmailSchema_parse (is_email world) body = Inr req"
    and "getSummary (summaryId req) st = Some summary"
    and "\<forall>i<length (recipients req).
           \<not> isl (sendMail world i
             (mailOptions world (subject req) (emailBody_of (email_message req) summary)
                (recipients req ! i)))"
  shows "\<exists>text emailShare st' mails.
           post_summaries_email world uuid now body st =
             (\<lparr>status = 200, payload = EmailSent text emailShare\<rparr>, st', mails) \<and>
           map_get (emailShares st') uuid = Some emailShare \<and>
           e_summaryId emailShare = summaryId req \<and>
           map mail_to mails = recipients req"
proof -
  let ?mails = "map (mailOptions world (subject req) (emailBody_of (email_message req) summary))
                  (recipients req)"
  have "\<not> (\<exists>i<length ?mails. isl (sendMail world i (?mails ! i)))"
    using assms(3) by auto
  then have "\<not> list_ex isl (map (\<lambda>(i, m). sendMail world i m) (enumerate 0 ?mails))"
    unfolding list_ex_outcomes .
  moreover have "map mail_to ?mails = recipients req"
    by (simp add: mailOptions_def comp_def)
  ultimately show ?thesis
    using assms(1,2)
    by (simp add: post_summaries_email_def Let_def createEmailShare_def map_get_map_set)
qed


section \<open>Default instructions, empty completions\<close>

lemma generateSummarySchema_parse_no_instructions:
  assumes "get_property body (jsstr ''transcriptContent'') = Some (JStr tc)" and "tc \<noteq> []"
    and "get_property body (jsstr ''customInstructions'') = Some JUndefined"
  shows "generateSummarySchema_parse body =
           Inr \<lparr>transcriptContent = tc, customInstructions = None\<rparr>"
proof -
  from get_property_defined [OF assms(1)] obtain props where
    body: "body = JObj props" and
    tc: "object_property props (jsstr ''transcriptContent'') = JStr tc"
    by auto
  from assms(3) have ci: "object_property props (jsstr ''customInstructions'') = JUndefined"
    by (simp add: body object_property_def)
  show ?thesis
    using assms(2)
    by (simp add: body generateSummarySchema_parse_def tc ci parse_string_min1_def
        parse_string_optional_def Let_def)
qed

text \<open>
  Claim C5. A generate-summary request with a non-empty transcript and no custom instructions
  makes one call to the completion service, with a prompt that begins with the fixed default
  instruction text; when the service answers, the response is the stored summary, whose
  customInstructions is that default text and not the absent marker.
\<close>

theorem post_summaries_generate_default_instructions:
  assumes "get_property body (jsstr ''transcriptContent'') = Some (JStr tc)" and "tc \<noteq> []"
    and "get_property body (jsstr ''customInstructions'') = Some JUndefined"
  shows "\<exists>res st' request prompt.
           post_summaries_generate groq u1 n1 u2 n2 body st = (res, st', [request]) \<and>
           messages request = [\<lparr>role = jsstr ''user'', chat_content = prompt\<rparr>] \<and>
           prompt = defaultInstructions @ [LF, LF] @ jsstr ''Transcript:'' @ [LF] @ tc \<and>
           prefix defaultInstructions prompt \<and>
           (\<forall>completion. groq request = Inr completion \<longrightarrow>
              (\<exists>summary. res = \<lparr>status = 200, payload = SummaryJson summary\<rparr> \<and>
                 s_customInstructions summary = Some defaultInstructions \<and>
                 getSummary u2 st' = Some summary))"
proof -
  let ?prompt = "defaultInstructions @ [LF, LF] @ jsstr ''Transcript:'' @ [LF] @ tc"
  let ?request = "\<lparr>messages = [\<lparr>role = jsstr ''user'', chat_content = ?prompt\<rparr>],
                   model = jsstr ''llama-3.3-70b-versatile'',
                   temperature = 3 / 10, max_tokens = 2048\<rparr>"
  note p = generateSummarySchema_parse_no_instructions [OF assms]
  have o: "or_null (Some defaultInstructions) = Some defaultInstructions"
    using defaultInstructions_nonempty by (simp add: or_null_def)
  show ?thesis
  proof (cases "groq ?request")
    case (Inl err)
    then have "post_summaries_generate groq u1 n1 u2 n2 body st =
        (\<lparr>status = 500, payload = Message (jsstr ''Failed to generate summary'')\<rparr>,
         snd (createTranscript u1 n1 \<lparr>it_content = tc, it_fileName = None\<rparr> st), [?request])"
      by (simp add: post_summaries_generate_def p Let_def or_default_def split: prod.splits)
    with Inl show ?thesis by simp
  next
    case (Inr completion)
    then obtain summary st' where
      "post_summaries_generate groq u1 n1 u2 n2 body st =
        (\<lparr>status = 200, payload = SummaryJson summary\<rparr>, st', [?request])"
      and "s_customInstructions summary = Some defaultInstructions"
      and "getSummary u2 st' = Some summary"
      by (simp add: post_summaries_generate_def p Let_def or_default_def o createSummary_def
          createTranscript_def getSummary_def map_get_map_set)
    with Inr show ?thesis by simp
  qed
qed

theorem post_summaries_generate_default_instructions_witness:
  "get_property body_generate (jsstr ''transcriptContent'') =
     Some (JStr (jsstr ''Alice: let's ship Friday. Bob: agreed.'')) \<and>
   jsstr ''Alice: let's ship Friday. Bob: agreed.'' \<noteq> [] \<and>
   get_property body_generate (jsstr ''customInstructions'') = Some JUndefined \<and>
   (\<exists>summary st' request prompt.
      post_summaries_generate (groq_reply (Some (jsstr ''Ship on Friday.'')))
        (jsstr ''t7'') 7000 (jsstr ''s7'') 7001 body_generate new_MemStorage =
        (\<lparr>status = 200, payload = SummaryJson summary\<rparr>, st', [request]) \<and>
      messages request = [\<lparr>role = jsstr ''user'', chat_content = prompt\<rparr>] \<and>
      prefix defaultInstructions prompt \<and>
      s_customInstructions summary = Some defaultInstructions \<and>
      getSummary (jsstr ''s7'') st' = Some summary)"
proof -
  have h1: "get_property body_generate (jsstr ''transcriptContent'') =
     Some (JStr (jsstr ''Alice: let's ship Friday. Bob: agreed.''))"
    by (simp add: body_generate_def jsstr_eq_iff)
  have h2: "jsstr ''Alice: let's ship Friday. Bob: agreed.'' \<noteq> []"
    by (simp add: jsstr_def)
  have h3: "get_property body_generate (jsstr ''customInstructions'') = Some JUndefined"
    by (simp add: body_generate_def jsstr_eq_iff)
  from post_summaries_generate_default_instructions [OF h1 h2 h3,
      of "groq_reply (Some (jsstr ''Ship on Friday.''))" "jsstr ''t7''" 7000 "jsstr ''s7''" 7001
      new_MemStorage]
  obtain res st' request prompt where
    run: "post_summaries_generate (groq_reply (Some (jsstr ''Ship on Friday.'')))
        (jsstr ''t7'') 7000 (jsstr ''s7'') 7001 body_generate new_MemStorage =
        (res, st', [request])" and
    m: "messages request = [\<lparr>role = jsstr ''user'', chat_content = prompt\<rparr>]" and
    p: "prefix defaultInstructions prompt" and
    ok: "\<forall>completion. groq_reply (Some (jsstr ''Ship on Friday.'')) request = Inr completion \<longrightarrow>
           (\<exists>summary. res = \<lparr>status = 200, payload = SummaryJson summary\<rparr> \<and>
              s_customInstructions summary = Some defaultInstructions \<and>
              getSummary (jsstr ''s7'') st' = Some summary)"
    by (elim exE conjE) (rule that)
  from ok obtain summary where
    "res = \<lparr>status = 200, payload = SummaryJson summary\<rparr>"
    "s_customInstructions summary = Some defaultInstructions"
    "getSummary (jsstr ''s7'') st' = Some summary"
    by (auto simp: groq_reply_def)
  with run m p h1 h2 h3 show ?thesis by blast
qed

lemma wordCount_not_zero:
  "nat_toString (length (js_split_ws (js_trim content))) \<noteq> jsstr ''0''"
  by (simp add: length_js_split_ws whitespace_separated_runs_def nat_toString_zero_iff)

lemma wordCount_blank:
  "list_all is_space content \<Longrightarrow>
   nat_toString (length (js_split_ws (js_trim content))) = jsstr ''1''"
  by (simp add: js_trim_empty_iff [symmetric] js_split_ws_def nat_toString_one)

text \<open>
  Claim C9. The stored word count is never "0". Content that is empty or all white space
  trims to the empty string, which splits into one (empty) piece, so \<open>updateSummary\<close> stores
  "1" for it; and when the completion service returns no content, the generate handler
  stores a summary with the empty content and the word count "1".
\<close>

theorem wordCount_never_zero:
  "(updateSummary ident content st = (Some new, st') \<longrightarrow>
      s_wordCount new \<noteq> Some (jsstr ''0'') \<and>
      (list_all is_space content \<longrightarrow> s_wordCount new = Some (jsstr ''1''))) \<and>
   (post_summaries_generate groq u1 n1 u2 n2 body st =
      (\<lparr>status = 200, payload = SummaryJson summary\<rparr>, st'', calls) \<longrightarrow>
      s_wordCount summary \<noteq> Some (jsstr ''0'') \<and>
      (list_all is_space (s_content summary) \<longrightarrow> s_wordCount summary = Some (jsstr ''1''))) \<and>
   (generateSummarySchema_parse body = Inr req \<and> summaryContent_of completion = [] \<longrightarrow>
      (\<exists>empty st3 calls.
         post_summaries_generate (\<lambda>request. Inr completion) u1 n1 u2 n2 body st =
           (\<lparr>status = 200, payload = SummaryJson empty\<rparr>, st3, calls) \<and>
         s_content empty = [] \<and> s_wordCount empty = Some (jsstr ''1'') \<and>
         getSummary u2 st3 = Some empty))"
proof (intro conjI impI)
  assume "updateSummary ident content st = (Some new, st')"
  from updateSummary_Some [OF this]
  have w: "s_wordCount new = Some (nat_toString (length (js_split_ws (js_trim content))))"
    by simp
  then show "s_wordCount new \<noteq> Some (jsstr ''0'')"
    by (simp add: wordCount_not_zero)
  show "s_wordCount new = Some (jsstr ''1'')" if "list_all is_space content"
    using w that by (simp add: wordCount_blank)
next
  assume "post_summaries_generate groq u1 n1 u2 n2 body st =
      (\<lparr>status = 200, payload = SummaryJson summary\<rparr>, st'', calls)"
  from post_summaries_generate_completed [OF this]
  have w: "s_wordCount summary =
      Some (nat_toString (length (js_split_ws (js_trim (s_content summary)))))"
    by simp
  then show "s_wordCount summary \<noteq> Some (jsstr ''0'')"
    by (simp add: wordCount_not_zero)
  show "s_wordCount summary = Some (jsstr ''1'')" if "list_all is_space (s_content summary)"
    using w that by (simp add: wordCount_blank)
next
  assume a: "generateSummarySchema_parse body = Inr req \<and> summaryContent_of completion = []"
  then have p: "generateSummarySchema_parse body = Inr req"
    and e: "summaryContent_of completion = []"
    by simp_all
  from post_summaries_generate_success [OF p, of "\<lambda>request. Inr completion" completion u1 n1 u2 n2 st]
  obtain st3 calls where
    run: "post_summaries_generate (\<lambda>request. Inr completion) u1 n1 u2 n2 body st =
      (\<lparr>status = 200,
        payload = SummaryJson
          \<lparr>s_id = u2, s_transcriptId = u1, s_content = summaryContent_of completion,
           s_customInstructions = Some (or_default (customInstructions req) defaultInstructions),
           s_wordCount =
             Some (nat_toString (length (js_split_ws (js_trim (summaryContent_of completion))))),
           s_createdAt = n2\<rparr>\<rparr>, st3, calls)"
    by auto
  from post_summaries_generate_completed [OF run] run e
  show "\<exists>empty st3 calls.
         post_summaries_generate (\<lambda>request. Inr completion) u1 n1 u2 n2 body st =
           (\<lparr>status = 200, payload = SummaryJson empty\<rparr>, st3, calls) \<and>
         s_content empty = [] \<and> s_wordCount empty = Some (jsstr ''1'') \<and>
         getSummary u2 st3 = Some empty"
    by (simp add: wordCount_blank)
qed

theorem wordCount_never_zero_witness:
  "(\<exists>new st'. updateSummary (jsstr ''s1'') (jsstr ''   '') store_a = (Some new, st') \<and>
      list_all is_space (jsstr ''   '') \<and> s_wordCount new = Some (jsstr ''1'')) \<and>
   generateSummarySchema_parse body_generate =
     Inr \<lparr>transcriptContent = jsstr ''Alice: let's ship Friday. Bob: agreed.'',
          customInstructions = None\<rparr> \<and>
   summaryContent_of \<lparr>choices = [\<lparr>choice_message = Some \<lparr>completion_content = None\<rparr>\<rparr>]\<rparr> = [] \<and>
   (\<exists>empty st3 calls.
      post_summaries_generate
        (\<lambda>request. Inr \<lparr>choices = [\<lparr>choice_message = Some \<lparr>completion_content = None\<rparr>\<rparr>]\<rparr>)
        (jsstr ''t7'') 7000 (jsstr ''s7'') 7001 body_generate new_MemStorage =
        (\<lparr>status = 200, payload = SummaryJson empty\<rparr>, st3, calls) \<and>
      s_content empty = [] \<and> s_wordCount empty = Some (jsstr ''1'') \<and>
      getSummary (jsstr ''s7'') st3 = Some empty)"
proof -
  let ?completion = "\<lparr>choices = [\<lparr>choice_message = Some \<lparr>completion_content = None\<rparr>\<rparr>]\<rparr>"
  have blank: "list_all is_space (jsstr ''   '')"
    by (simp add: jsstr_def is_space_def)
  have e: "summaryContent_of ?completion = []"
    by (simp add: summaryContent_of_def or_default_def)
  have "getSummary (jsstr ''s1'') store_a \<noteq> None"
    by (simp add: store_a_s1)
  then obtain new st1 where
    u: "updateSummary (jsstr ''s1'') (jsstr ''   '') store_a = (Some new, st1)"
    by (auto simp: getSummary_def updateSummary_def Let_def)
  note W = wordCount_never_zero [where ident = "jsstr ''s1''" and content = "jsstr ''   ''"
      and st = store_a and new = new and st' = st1]
  from W have "updateSummary (jsstr ''s1'') (jsstr ''   '') store_a = (Some new, st1) \<longrightarrow>
      s_wordCount new \<noteq> Some (jsstr ''0'') \<and>
      (list_all is_space (jsstr ''   '') \<longrightarrow> s_wordCount new = Some (jsstr ''1''))"
    by (rule conjunct1)
  with u blank have a: "s_wordCount new = Some (jsstr ''1'')"
    by blast
  note W2 = wordCount_never_zero [where body = body_generate and completion = ?completion
      and req = "\<lparr>transcriptContent = jsstr ''Alice: let's ship Friday. Bob: agreed.'',
                  customInstructions = None\<rparr>"
      and ?u1.0 = "jsstr ''t7''" and ?n1.0 = 7000 and ?u2.0 = "jsstr ''s7''" and ?n2.0 = 7001
      and st = new_MemStorage]
  from W2 have "generateSummarySchema_parse body_generate =
       Inr \<lparr>transcriptContent = jsstr ''Alice: let's ship Friday. Bob: agreed.'',
            customInstructions = None\<rparr> \<and>
     summaryContent_of ?completion = [] \<longrightarrow>
     (\<exists>empty st3 calls.
        post_summaries_generate (\<lambda>request. Inr ?completion)
          (jsstr ''t7'') 7000 (jsstr ''s7'') 7001 body_generate new_MemStorage =
          (\<lparr>status = 200, payload = SummaryJson empty\<rparr>, st3, calls) \<and>
        s_content empty = [] \<and> s_wordCount empty = Some (jsstr ''1'') \<and>
        getSummary (jsstr ''s7'') st3 = Some empty)"
    by (rule conjunct2 [OF conjunct2])
  with body_generate_parse e have b: "\<exists>empty st3 calls.
        post_summaries_generate (\<lambda>request. Inr ?completion)
          (jsstr ''t7'') 7000 (jsstr ''s7'') 7001 body_generate new_MemStorage =
          (\<lparr>status = 200, payload = SummaryJson empty\<rparr>, st3, calls) \<and>
        s_content empty = [] \<and> s_wordCount empty = Some (jsstr ''1'') \<and>
        getSummary (jsstr ''s7'') st3 = Some empty"
    by (simp only: simp_thms)
  from u blank a have "\<exists>new st'.
      updateSummary (jsstr ''s1'') (jsstr ''   '') store_a = (Some new, st') \<and>
      list_all is_space (jsstr ''   '') \<and> s_wordCount new = Some (jsstr ''1'')"
    by blast
  with body_generate_parse e b show ?thesis
    by (intro conjI)
qed

text \<open>
  Claim C10. The create-transcript handler rejects content exactly when it is absent, not a
  string, or the empty string. A content string that is not empty and all white space passes
  the check and is trimmed to the empty string: the handler answers 200 with a transcript whose
  content is empty, and this transcript is stored.
\<close>

theorem post_transcripts_presence_check:
  "(get_property body (jsstr ''content'') = Some c \<longrightarrow>
      (status (fst (post_transcripts uuid now body st)) = 400 \<longleftrightarrow>
       \<not> (\<exists>s. c = JStr s \<and> s \<noteq> []))) \<and>
   (get_property body (jsstr ''content'') = Some (JStr blank) \<and> blank \<noteq> [] \<and>
    list_all is_space blank \<longrightarrow>
      post_transcripts uuid now body st =
        (\<lparr>status = 200,
          payload = TranscriptJson
            \<lparr>t_id = uuid, t_content = [], t_fileName = None, t_createdAt = now\<rparr>\<rparr>,
         st\<lparr>transcripts :=
              map_set uuid \<lparr>t_id = uuid, t_content = [], t_fileName = None, t_createdAt = now\<rparr>
                (transcripts st)\<rparr>) \<and>
      getTranscript uuid (snd (post_transcripts uuid now body st)) =
        Some \<lparr>t_id = uuid, t_content = [], t_fileName = None, t_createdAt = now\<rparr>)"
proof (intro conjI impI)
  assume "get_property body (jsstr ''content'') = Some c"
  then show "status (fst (post_transcripts uuid now body st)) = 400 \<longleftrightarrow>
       \<not> (\<exists>s. c = JStr s \<and> s \<noteq> [])"
    by (cases c) (simp_all add: post_transcripts_def createTranscript_def Let_def)
next
  assume a: "get_property body (jsstr ''content'') = Some (JStr blank) \<and> blank \<noteq> [] \<and>
    list_all is_space blank"
  then have t: "js_trim blank = []" by (simp add: js_trim_empty_iff)
  from a t show run: "post_transcripts uuid now body st =
        (\<lparr>status = 200,
          payload = TranscriptJson
            \<lparr>t_id = uuid, t_content = [], t_fileName = None, t_createdAt = now\<rparr>\<rparr>,
         st\<lparr>transcripts :=
              map_set uuid \<lparr>t_id = uuid, t_content = [], t_fileName = None, t_createdAt = now\<rparr>
                (transcripts st)\<rparr>)"
    by (simp add: post_transcripts_def createTranscript_def Let_def or_null_def)
  show "getTranscript uuid (snd (post_transcripts uuid now body st)) =
        Some \<lparr>t_id = uuid, t_content = [], t_fileName = None, t_createdAt = now\<rparr>"
    by (simp add: run getTranscript_def map_get_map_set)
qed

theorem post_transcripts_presence_check_witness:
  "get_property body_transcript (jsstr ''content'') = Some (JStr (jsstr ''   '')) \<and>
   jsstr ''   '' \<noteq> [] \<and> list_all is_space (jsstr ''   '') \<and>
   post_transcripts (jsstr ''t1'') 1000 body_transcript new_MemStorage =
     (\<lparr>status = 200,
       payload = TranscriptJson
         \<lparr>t_id = jsstr ''t1'', t_content = [], t_fileName = None, t_createdAt = 1000\<rparr>\<rparr>,
      \<lparr>transcripts =
         [(jsstr ''t1'',
           \<lparr>t_id = jsstr ''t1'', t_content = [], t_fileName = None, t_createdAt = 1000\<rparr>)],
       summaries = [], emailShares = []\<rparr>) \<and>
   status (fst (post_transcripts (jsstr ''t1'') 1000 body_transcript new_MemStorage)) \<noteq> 400"
proof -
  have h: "get_property body_transcript (jsstr ''content'') = Some (JStr (jsstr ''   ''))"
    by (simp add: body_transcript_def)
  have n: "jsstr ''   '' \<noteq> []"
    by (simp add: jsstr_def)
  have blank: "list_all is_space (jsstr ''   '')"
    by (simp add: jsstr_def is_space_def)
  note W = post_transcripts_presence_check [where body = body_transcript
      and c = "JStr (jsstr ''   '')" and blank = "jsstr ''   ''" and uuid = "jsstr ''t1''"
      and now = 1000 and st = new_MemStorage]
  from W h n have s: "status (fst (post_transcripts (jsstr ''t1'') 1000 body_transcript new_MemStorage)) \<noteq> 400"
    by blast
  from W h n blank have "post_transcripts (jsstr ''t1'') 1000 body_transcript new_MemStorage =
        (\<lparr>status = 200,
          payload = TranscriptJson
            \<lparr>t_id = jsstr ''t1'', t_content = [], t_fileName = None, t_createdAt = 1000\<rparr>\<rparr>,
         new_MemStorage\<lparr>transcripts :=
              map_set (jsstr ''t1'') \<lparr>t_id = jsstr ''t1'', t_content = [], t_fileName = None, t_createdAt = 1000\<rparr>
                (transcripts new_MemStorage)\<rparr>)"
    by blast
  then have "post_transcripts (jsstr ''t1'') 1000 body_transcript new_MemStorage =
     (\<lparr>status = 200,
       payload = TranscriptJson
         \<lparr>t_id = jsstr ''t1'', t_content = [], t_fileName = None, t_createdAt = 1000\<rparr>\<rparr>,
      \<lparr>transcripts =
         [(jsstr ''t1'',
           \<lparr>t_id = jsstr ''t1'', t_content = [], t_fileName = None, t_createdAt = 1000\<rparr>)],
       summaries = [], emailShares = []\<rparr>)"
    by (simp add: new_MemStorage_def)
  with h n blank s show ?thesis by (intro conjI)
qed

end
